theory Spec2Isabelle
  imports Main "HOL-Library.AList"
begin

section \<open>Data model (src/src/types.ts)\<close>

text \<open>
  The enums of \<^verbatim>\<open>types.ts\<close> become datatypes, its interfaces records. Values a method
  throws become values of \<open>error\<close>; \<open>Thrown\<close> stands for whatever an external
  collaborator (persistence back-end, read model, manager, middleware, handler) throws.
\<close>

datatype ProjectionStatus =
  IDLE | RUNNING | STOPPING | DELETING | DELETING_INCL_EMITTED_EVENTS | RESETTING

datatype EventAction = PRE_APPEND | APPEND_ERRORED | APPENDED | LOADED

datatype MetadataOperator =
  EQUALS | GREATER_THAN | GREATER_THAN_EQUALS | IN | LOWER_THAN | LOWER_THAN_EQUALS
  | NOT_EQUALS | NOT_IN | REGEX

datatype FieldType = METADATA | MESSAGE_PROPERTY

datatype mvalue = VString string | VNumber int | VBoolean bool | VArray "mvalue list"

record MetadataMatch =
  field :: string
  "value" :: mvalue
  operation :: MetadataOperator
  fieldType :: FieldType

type_synonym IMetadataMatcher = "MetadataMatch list"

datatype error =
  AlreadyInitialized | FromAlreadyCalled | WhenAlreadyCalled | NoHandler | StateNotInitialised
  | ProjectionNotFound string
  | Thrown string

text \<open>
  A JavaScript number as the projector uses it: a stream position. \<open>undefined + 1\<close> and
  \<open>undefined++\<close> are \<open>NaN\<close>, and \<open>NaN\<close> stays \<open>NaN\<close>.
\<close>

datatype jsnum = Num int | NaN

fun js_add1 :: "jsnum \<Rightarrow> jsnum" where
  "js_add1 (Num n) = Num (n + 1)"
| "js_add1 NaN = NaN"

record EventMetadata =
  aggregate_id :: string
  aggregate_type :: string
  aggregate_version :: int
  stream :: string

record IEvent =
  no :: int
  uuid :: string
  name :: string
  payload :: string
  metadata :: EventMetadata
  createdAt :: int

record IStream =
  streamName :: string
  matcher :: "IMetadataMatcher option"

record LoadStreamParameter = IStream +
  fromNumber :: "jsnum option"
  count :: "int option"

text \<open>
  A middleware handler \<open>(event, action, eventStore) => IEvent | Promise<IEvent>\<close> is a
  callback of the application: a function of the event and the action that returns the
  event to go on with, or throws (\<open>Inl\<close>).
\<close>

type_synonym EventCallback = "IEvent \<Rightarrow> EventAction \<Rightarrow> error + IEvent"

record EventMiddleWare =
  action :: EventAction
  handler :: EventCallback

section \<open>The event store (src/src/event-store.ts)\<close>

text \<open>
  \<open>PersistenceStrategy\<close> is an interface: the event store is verified against every
  implementation of it, a record of operations on a back-end state \<open>'x\<close> that return
  normally (\<open>Inr\<close>) or throw (\<open>Inl\<close>) and leave a new back-end state either way.
\<close>

type_synonym ('a, 's) io = "'s \<Rightarrow> (error + 'a) \<times> 's"

record 'x PersistenceStrategy =
  addStreamToStreamsTable :: "string \<Rightarrow> (unit, 'x) io"
  removeStreamFromStreamsTable :: "string \<Rightarrow> (unit, 'x) io"
  createSchema :: "string \<Rightarrow> (unit, 'x) io"
  dropSchema :: "string \<Rightarrow> (unit, 'x) io"
  ps_appendTo :: "string \<Rightarrow> IEvent list \<Rightarrow> (unit, 'x) io"
  ps_mergeAndLoad :: "LoadStreamParameter list \<Rightarrow> (IEvent list, 'x) io"
  ps_hasStream :: "string \<Rightarrow> (bool, 'x) io"
  ps_deleteStream :: "string \<Rightarrow> (unit, 'x) io"

text \<open>
  A promise that was created and not awaited: the call has been made, its body runs when
  the event loop gets to it, and its outcome reaches nobody. \<open>Chain a ev outcome\<close> is
  the promise that the \<open>reduce\<close> over the handlers of action \<open>a\<close> returned for \<open>ev\<close>,
  with what it settles to: the event the last handler returns, or what a handler throws.
  \<open>AppendTo s evs\<close> is a call of \<open>EventStore.appendTo\<close>.
\<close>

datatype floating =
  Chain EventAction IEvent "error + IEvent"
  | AppendTo string "IEvent list"

type_synonym IState = "string \<rightharpoonup> int"

record projection =
  state :: IState
  positions :: "(string \<times> jsnum) list"
  status :: "ProjectionStatus option"

text \<open>
  Everything outside the objects under verification: the back-end state, the table of
  projection records (the \<open>projections\<close> object the in-memory manager shares with its
  projectors), the promises left floating, and what \<open>console.warn\<close> printed.
\<close>

record 'x world =
  ext :: 'x
  projections :: "string \<rightharpoonup> projection"
  floating :: "floating list"
  console :: "error list"

text \<open>
  The class \<open>MiddlewareIterator\<close> is imported from \<^verbatim>\<open>./middleware/iterator\<close>, which is
  not among the sources: the event store takes it as a parameter, a function from the
  back-end's sequence and the wrapped handlers to the sequence of pulls the consumer sees,
  each pull an event or a thrown value.
\<close>

type_synonym WrappedMiddleware = "IEvent \<Rightarrow> error + IEvent"

record 'x EventStore =
  persistenceStrategy :: "'x PersistenceStrategy"
  middleware :: "EventAction \<Rightarrow> EventCallback list"
  MiddlewareIterator :: "IEvent list \<Rightarrow> WrappedMiddleware list \<Rightarrow> (error + IEvent) list"

text \<open>
  The constructor buckets \<open>options.middleware\<close> by action, each handler pushed at the end
  of its bucket (lines 57-61).
\<close>

definition EventStore_constructor ::
  "EventMiddleWare list \<Rightarrow> 'x PersistenceStrategy
     \<Rightarrow> (IEvent list \<Rightarrow> WrappedMiddleware list \<Rightarrow> (error + IEvent) list) \<Rightarrow> 'x EventStore" where
  "EventStore_constructor options_middleware strategy iterator =
     \<lparr> persistenceStrategy = strategy,
       middleware = foldl (\<lambda>carry mw. carry(action mw := carry (action mw) @ [handler mw]))
                          (\<lambda>_. []) options_middleware,
       MiddlewareIterator = iterator \<rparr>"

text \<open>
  \<open>handlers.reduce(async (event, handler) => handler(await event, action, this),
  Promise.resolve(event))\<close>: the accumulator is a promise, here its outcome; a rejected
  accumulator rejects every later step without calling its handler.
\<close>

fun reduce_chain :: "EventAction \<Rightarrow> EventCallback list \<Rightarrow> error + IEvent \<Rightarrow> error + IEvent" where
  "reduce_chain a [] acc = acc"
| "reduce_chain a (h # hs) acc =
     reduce_chain a hs (case acc of Inl e \<Rightarrow> Inl e | Inr event \<Rightarrow> h event a)"

text \<open>
  \<open>Promise.all\<close> over chains of equal length that settle in batch order: the first
  rejected one, in batch order, rejects the whole.
\<close>

fun Promise_all :: "(error + 'a) list \<Rightarrow> error + 'a list" where
  "Promise_all [] = Inr []"
| "Promise_all (Inl e # ps) = Inl e"
| "Promise_all (Inr a # ps) = (case Promise_all ps of Inl e \<Rightarrow> Inl e | Inr as \<Rightarrow> Inr (a # as))"

definition in_ext :: "('a, 'x) io \<Rightarrow> ('a, ('x, 'z) world_scheme) io" where
  "in_ext m w = (case m (ext w) of (r, x') \<Rightarrow> (r, w\<lparr>ext := x'\<rparr>))"

definition createStream ::
  "('x, 'y) EventStore_scheme \<Rightarrow> string \<Rightarrow> (unit, 'x world) io" where
  "createStream es stream_name w =
     (case in_ext (addStreamToStreamsTable (persistenceStrategy es) stream_name) w of
        (Inl error, w1) \<Rightarrow> (Inr (), w1\<lparr>console := console w1 @ [error]\<rparr>)
      | (Inr _, w1) \<Rightarrow>
          (case in_ext (createSchema (persistenceStrategy es) stream_name) w1 of
             (Inr _, w2) \<Rightarrow> (Inr (), w2)
           | (Inl error, w2) \<Rightarrow>
               (case in_ext (removeStreamFromStreamsTable (persistenceStrategy es) stream_name) w2 of
                  (Inl error', w3) \<Rightarrow> (Inl error', w3)
                | (Inr _, w3) \<Rightarrow>
                    (case in_ext (dropSchema (persistenceStrategy es) stream_name) w3 of
                       (Inl error', w4) \<Rightarrow> (Inl error', w4)
                     | (Inr _, w4) \<Rightarrow> (Inl error, w4)))))"

definition appendTo ::
  "('x, 'y) EventStore_scheme \<Rightarrow> string \<Rightarrow> IEvent list \<Rightarrow> (unit, 'x world) io" where
  "appendTo es stream_name events w =
     (if length events = 0 then (Inr (), w)
      else
        case Promise_all
               (map (\<lambda>event. reduce_chain PRE_APPEND (middleware es PRE_APPEND) (Inr event)) events) of
          Inl e \<Rightarrow> (Inl e, w)
        | Inr events' \<Rightarrow>
            (case in_ext (ps_appendTo (persistenceStrategy es) stream_name events') w of
               (Inr _, w1) \<Rightarrow>
                 (Inr (), w1\<lparr>floating := floating w1 @
                    map (\<lambda>event. Chain APPENDED event
                           (reduce_chain APPENDED (middleware es APPENDED) (Inr event)))
                        events'\<rparr>)
             | (Inl e, w1) \<Rightarrow>
                 (Inl e, w1\<lparr>floating := floating w1 @
                    map (\<lambda>event. Chain APPEND_ERRORED event
                           (reduce_chain APPEND_ERRORED (middleware es APPEND_ERRORED)
                              (Inr event)))
                        events'\<rparr>)))"

definition mergeAndLoad ::
  "('x, 'y) EventStore_scheme \<Rightarrow> LoadStreamParameter list \<Rightarrow> ((error + IEvent) list, 'x world) io" where
  "mergeAndLoad es streams w =
     (let mws = map (\<lambda>h event. h event LOADED) (middleware es LOADED) in
      case in_ext (ps_mergeAndLoad (persistenceStrategy es) streams) w of
        (Inl e, w1) \<Rightarrow> (Inl e, w1)
      | (Inr loaded, w1) \<Rightarrow> (Inr (MiddlewareIterator es loaded mws), w1))"

definition hasStream :: "('x, 'y) EventStore_scheme \<Rightarrow> string \<Rightarrow> (bool, 'x world) io" where
  "hasStream es stream_name = in_ext (ps_hasStream (persistenceStrategy es) stream_name)"

definition deleteStream :: "('x, 'y) EventStore_scheme \<Rightarrow> string \<Rightarrow> (unit, 'x world) io" where
  "deleteStream es stream_name = in_ext (ps_deleteStream (persistenceStrategy es) stream_name)"

section \<open>The read-model projector (second part of src/src/types.ts)\<close>

text \<open>
  The fields of \<open>InMemoryReadModelProjector\<close> that change while it runs. \<open>this.state\<close> is
  \<open>undefined\<close> (\<open>None\<close>) until \<open>init\<close>. An object whose keys are iterated
  (\<open>streamPositions\<close>, the \<open>positions\<close> of a record) is an association list in insertion
  order: \<open>obj[k] = v\<close> is \<open>AList.update k v\<close>, \<open>obj[k]\<close> is \<open>map_of obj k\<close>.

  A projection record holds the object \<open>this.streamPositions\<close> itself after \<open>persist\<close>
  and \<open>reset\<close>, and the fold increments positions in place. The projector replaces
  \<open>this.streamPositions\<close> by a fresh object (\<open>prepareStreamPosition\<close>, \<open>load\<close>,
  \<open>reset\<close>, \<open>delete\<close>) between any such assignment and the next fold, so records
  are modelled as values.
\<close>

record projector =
  this_state :: "IState option"
  metadataMatchers :: "string \<rightharpoonup> IMetadataMatcher"
  streamPositions :: "(string \<times> jsnum) list"
  streamCreated :: bool
  isStopped :: bool
  query_all :: bool
  query_streams :: "string list"
  this_status :: ProjectionStatus

text \<open>
  The interfaces the projector is constructed with. \<open>IReadModel\<close> and
  \<open>IProjectionManager\<close> come from \<^verbatim>\<open>../projection\<close> and \<open>InMemoryEventStore\<close> from
  \<^verbatim>\<open>./event-store\<close>, none of them among the sources: the read model is a record of
  operations on the back-end state, the manager a record of operations on the world, and
  \<open>InMemoryEventStore\<close> is the event store above (whose \<open>createStream\<close>,
  \<open>appendTo\<close>, \<open>hasStream\<close>, \<open>deleteStream\<close> and \<open>mergeAndLoad\<close> it inherits) with the
  names of its \<open>eventStreams\<close>.
\<close>

record 'x IReadModel =
  rm_init :: "(unit, 'x) io"
  rm_isInitialized :: "(bool, 'x) io"
  rm_persist :: "(unit, 'x) io"
  rm_delete :: "(unit, 'x) io"
  rm_reset :: "(unit, 'x) io"

record 'x IProjectionManager =
  fetchProjectionStatus :: "string \<Rightarrow> (ProjectionStatus, 'x world) io"
  idleProjection :: "string \<Rightarrow> (unit, 'x world) io"

record 'x InMemoryEventStore = "'x EventStore" +
  eventStreams :: "'x \<Rightarrow> string list"

text \<open>
  What the constructor and \<open>init\<close> fix for the life of the projector: its name, its
  collaborators, and the init handler (\<open>Some s\<close>: a handler that returns \<open>s\<close>). The
  event handlers that \<open>when\<close> and \<open>whenAny\<close> register are the record \<open>callbacks\<close> below;
  \<open>init\<close>, \<open>when\<close> and \<open>whenAny\<close> themselves are not steps of the model.
\<close>

record 'x projector_setup =
  this_name :: string
  manager :: "'x IProjectionManager"
  eventStore :: "'x InMemoryEventStore"
  readModel :: "'x IReadModel"
  initHandler :: "IState option"

text \<open>
  An event handler \<open>(state, event) => T | Promise<T>\<close> is application code that may
  call the projector (\<open>emit\<close>, \<open>linkTo\<close>, \<open>stop\<close>) and the store: it works on the
  projector and the world, and returns the next state or throws.
\<close>

type_synonym 'x handler_fn =
  "IState option \<Rightarrow> IEvent \<Rightarrow> (IState, projector \<times> 'x world) io"

record 'x callbacks =
  this_handlers :: "(string \<rightharpoonup> 'x handler_fn) option"
  this_handler :: "'x handler_fn option"

subsection \<open>Sequencing\<close>

definition ret :: "'a \<Rightarrow> ('a, 's) io" where
  "ret a s = (Inr a, s)"

definition throw :: "error \<Rightarrow> ('a, 's) io" where
  "throw e s = (Inl e, s)"

definition await :: "('a, 's) io \<Rightarrow> ('a \<Rightarrow> ('b, 's) io) \<Rightarrow> ('b, 's) io" where
  "await m f s = (case m s of (Inl e, s') \<Rightarrow> (Inl e, s') | (Inr a, s') \<Rightarrow> f a s')"

definition seq :: "('a, 's) io \<Rightarrow> ('b, 's) io \<Rightarrow> ('b, 's) io" where
  "seq m k = await m (\<lambda>_. k)"

definition in_world :: "('a, 'w) io \<Rightarrow> ('a, projector \<times> 'w) io" where
  "in_world m s = (case s of (p, w) \<Rightarrow> (case m w of (r, w') \<Rightarrow> (r, (p, w'))))"

definition assign :: "(projector \<Rightarrow> projector) \<Rightarrow> (unit, projector \<times> 'w) io" where
  "assign f s = (case s of (p, w) \<Rightarrow> (Inr (), (f p, w)))"

definition spread :: "('k \<times> 'v) list \<Rightarrow> ('k \<times> 'v) list \<Rightarrow> ('k \<times> 'v) list" where
  "spread a b = foldl (\<lambda>acc (k, v). AList.update k v acc) a b"

subsection \<open>Build phase: lines 224-258\<close>

definition fromAll :: "(unit, projector) io" where
  "fromAll p =
     (if query_all p \<or> length (query_streams p) > 0 then (Inl FromAlreadyCalled, p)
      else (Inr (), p\<lparr>query_all := True\<rparr>))"

definition fromStream :: "IStream \<Rightarrow> (unit, projector) io" where
  "fromStream s p =
     (if query_all p \<or> length (query_streams p) > 0 then (Inl FromAlreadyCalled, p)
      else (Inr (), p\<lparr>query_streams := query_streams p @ [streamName s],
                        metadataMatchers := (metadataMatchers p)(streamName s := matcher s)\<rparr>))"

definition fromStreams :: "IStream list \<Rightarrow> (unit, projector) io" where
  "fromStreams streams p =
     (if query_all p \<or> length (query_streams p) > 0 then (Inl FromAlreadyCalled, p)
      else (Inr (), p\<lparr>query_streams := map streamName streams,
                        metadataMatchers :=
                          foldl (\<lambda>matchers s. matchers(streamName s := matcher s)) Map.empty streams\<rparr>))"

subsection \<open>emit, linkTo, delete, reset, stop: lines 284-344\<close>

text \<open>
  \<open>emit\<close> ends with \<open>this.eventStore.appendTo(this.name, [event])\<close>, not awaited: the call
  is left floating. \<open>appendTo\<close> is an async function that reaches an \<open>await\<close> before it
  calls a handler or the back-end, so nothing of it has happened when \<open>emit\<close> returns.
  \<open>linkTo\<close> awaits the same call.
\<close>

definition emit :: "'x projector_setup \<Rightarrow> IEvent \<Rightarrow> (unit, projector \<times> 'x world) io" where
  "emit S event s =
     (case s of (p, w) \<Rightarrow>
      seq (if streamCreated p = False
           then await (in_world (hasStream (eventStore S) (this_name S)))
                  (\<lambda>exists. if exists = False
                     then seq (in_world (createStream (eventStore S) (this_name S)))
                              (assign (\<lambda>p. p\<lparr>streamCreated := True\<rparr>))
                     else ret ())
           else ret ())
          (in_world (\<lambda>w. (Inr (), w\<lparr>floating := floating w @ [AppendTo (this_name S) [event]]\<rparr>)))
        s)"

definition linkTo ::
  "'x projector_setup \<Rightarrow> string \<Rightarrow> IEvent \<Rightarrow> (unit, projector \<times> 'x world) io" where
  "linkTo S stream_name event =
     await (in_world (hasStream (eventStore S) stream_name))
       (\<lambda>exists. seq (if exists = False then in_world (createStream (eventStore S) stream_name)
                      else ret ())
                     (in_world (appendTo (eventStore S) stream_name [event])))"

definition delete :: "'x projector_setup \<Rightarrow> bool \<Rightarrow> (unit, projector \<times> 'x world) io" where
  "delete S deleteProjection =
     seq (in_world (\<lambda>w. (Inr (), w\<lparr>projections := (projections w)(this_name S := None)\<rparr>)))
    (seq (assign (\<lambda>p. p\<lparr>isStopped := True, this_state := None\<rparr>))
    (seq (case initHandler S of
            Some init_state \<Rightarrow> assign (\<lambda>p. p\<lparr>this_state := Some init_state\<rparr>)
          | None \<Rightarrow> ret ())
    (seq (if deleteProjection then in_world (in_ext (rm_delete (readModel S))) else ret ())
         (assign (\<lambda>p. p\<lparr>streamPositions := []\<rparr>)))))"

definition reset :: "'x projector_setup \<Rightarrow> (unit, projector \<times> 'x world) io" where
  "reset S =
     seq (assign (\<lambda>p. p\<lparr>streamPositions := []\<rparr>))
    (seq (in_world (in_ext (rm_reset (readModel S))))
    (seq (assign (\<lambda>p. p\<lparr>this_state := None\<rparr>))
    (seq (case initHandler S of
            Some init_state \<Rightarrow> assign (\<lambda>p. p\<lparr>this_state := Some init_state\<rparr>)
          | None \<Rightarrow> ret ())
    (seq (\<lambda>s. case s of (p, w) \<Rightarrow>
            (Inr (), (p, w\<lparr>projections := (projections w)(this_name S \<mapsto>
                        \<lparr>state = Map.empty, positions = streamPositions p, status = Some IDLE\<rparr>)\<rparr>)))
         (in_world (deleteStream (eventStore S) (this_name S)))))))"

text \<open>
  \<open>persist\<close> (lines 474-482): \<open>this.state || {}\<close> is the state, or the empty object when
  it is undefined; the spread keeps the other fields of the record, and a record that did
  not exist gets no status.
\<close>

definition persist :: "'x projector_setup \<Rightarrow> (unit, projector \<times> 'x world) io" where
  "persist S =
     seq (in_world (in_ext (rm_persist (readModel S))))
         (\<lambda>s. case s of (p, w) \<Rightarrow>
            (let st = (case this_state p of None \<Rightarrow> Map.empty | Some st \<Rightarrow> st);
                 old = (case projections w (this_name S) of
                          None \<Rightarrow> \<lparr>state = Map.empty, positions = [], status = None\<rparr>
                        | Some r \<Rightarrow> r)
             in (Inr (), (p, w\<lparr>projections := (projections w)(this_name S \<mapsto>
                               old\<lparr>state := st, positions := streamPositions p\<rparr>)\<rparr>))))"

definition stop :: "'x projector_setup \<Rightarrow> (unit, projector \<times> 'x world) io" where
  "stop S =
     seq (persist S)
    (seq (assign (\<lambda>p. p\<lparr>isStopped := True\<rparr>))
    (seq (in_world (idleProjection (manager S) (this_name S)))
         (assign (\<lambda>p. p\<lparr>this_status := IDLE\<rparr>))))"

subsection \<open>The private methods: lines 474-552\<close>

definition load :: "'x projector_setup \<Rightarrow> (unit, projector \<times> 'x world) io" where
  "load S s =
     (case s of (p, w) \<Rightarrow>
      (case projections w (this_name S) of
         None \<Rightarrow> (Inl (ProjectionNotFound (this_name S)), (p, w))
       | Some result \<Rightarrow>
           (Inr (), (p\<lparr>streamPositions := spread (streamPositions p) (positions result),
                        this_state := Some (state result)\<rparr>, w))))"

definition prepareStreamPosition :: "'x projector_setup \<Rightarrow> (unit, projector \<times> 'x world) io" where
  "prepareStreamPosition S s =
     (case s of (p, w) \<Rightarrow>
      (let sp0 = [];
           sp1 = (if query_all p
                  then foldl (\<lambda>acc sn. AList.update sn (Num 0) acc) []
                         (eventStreams (eventStore S) (ext w))
                  else sp0);
           sp2 = (if length (query_streams p) > 0
                  then foldl (\<lambda>acc sn. AList.update sn (Num 0) acc) [] (query_streams p)
                  else sp1)
       in (Inr (), (p\<lparr>streamPositions := spread sp2 (streamPositions p)\<rparr>, w))))"

definition fetchRemoteStatus ::
  "'x projector_setup \<Rightarrow> (ProjectionStatus, projector \<times> 'x world) io" where
  "fetchRemoteStatus S =
     in_world (\<lambda>w. case fetchProjectionStatus (manager S) (this_name S) w of
                      (Inl e, w') \<Rightarrow> (Inr RUNNING, w')
                    | (Inr st, w') \<Rightarrow> (Inr st, w'))"

definition startAgain :: "'x projector_setup \<Rightarrow> (unit, projector \<times> 'x world) io" where
  "startAgain S =
     seq (assign (\<lambda>p. p\<lparr>isStopped := False\<rparr>))
    (seq (in_world (\<lambda>w. case projections w (this_name S) of
                          None \<Rightarrow> (Inl (ProjectionNotFound (this_name S)), w)
                        | Some r \<Rightarrow>
                            (Inr (), w\<lparr>projections := (projections w)(this_name S \<mapsto>
                                          r\<lparr>status := Some RUNNING\<rparr>)\<rparr>)))
         (assign (\<lambda>p. p\<lparr>this_status := RUNNING\<rparr>)))"

definition projectionExists :: "'x projector_setup \<Rightarrow> (bool, projector \<times> 'x world) io" where
  "projectionExists S = in_world (\<lambda>w. (Inr (projections w (this_name S) \<noteq> None), w))"

definition createProjection :: "'x projector_setup \<Rightarrow> (unit, projector \<times> 'x world) io" where
  "createProjection S =
     in_world (\<lambda>w. (Inr (), w\<lparr>projections := (projections w)(this_name S \<mapsto>
                       \<lparr>state = Map.empty, positions = [], status = Some IDLE\<rparr>)\<rparr>))"

subsection \<open>The fold: lines 442-472\<close>

text \<open>
  \<open>this.streamPositions[event.metadata.stream]++\<close>: the entry of the stream becomes its
  value plus one, \<open>NaN\<close> when the stream has no entry.
\<close>

definition increment :: "string \<Rightarrow> (string \<times> jsnum) list \<Rightarrow> (string \<times> jsnum) list" where
  "increment k sp =
     AList.update k (case map_of sp k of None \<Rightarrow> NaN | Some position \<Rightarrow> js_add1 position) sp"

text \<open>
  The merged sequence is the finite list of its pulls; a pull that throws ends the
  \<open>for await\<close> with that value. \<open>cloneDeep\<close> is the identity on values.
\<close>

fun handleStreamWithSingleHandler ::
  "'x handler_fn \<Rightarrow> (error + IEvent) list \<Rightarrow> (unit, projector \<times> 'x world) io" where
  "handleStreamWithSingleHandler h [] s = (Inr (), s)"
| "handleStreamWithSingleHandler h (Inl e # rest) s = (Inl e, s)"
| "handleStreamWithSingleHandler h (Inr event # rest) s =
     (case s of (p, w) \<Rightarrow>
      (let p1 = p\<lparr>streamPositions := increment (stream (metadata event)) (streamPositions p)\<rparr>
       in case h (this_state p1) event (p1, w) of
            (Inl e, s2) \<Rightarrow> (Inl e, s2)
          | (Inr st, (p2, w2)) \<Rightarrow>
              (let p3 = p2\<lparr>this_state := Some st\<rparr>
               in if isStopped p3 then (Inr (), (p3, w2))
                  else handleStreamWithSingleHandler h rest (p3, w2))))"

fun handleStreamWithHandlers ::
  "(string \<rightharpoonup> 'x handler_fn) \<Rightarrow> (error + IEvent) list \<Rightarrow> (unit, projector \<times> 'x world) io" where
  "handleStreamWithHandlers hs [] s = (Inr (), s)"
| "handleStreamWithHandlers hs (Inl e # rest) s = (Inl e, s)"
| "handleStreamWithHandlers hs (Inr event # rest) s =
     (case s of (p, w) \<Rightarrow>
      (let p1 = p\<lparr>streamPositions := increment (stream (metadata event)) (streamPositions p)\<rparr>
       in case hs (name event) of
            None \<Rightarrow>
              if isStopped p1 then (Inr (), (p1, w))
              else handleStreamWithHandlers hs rest (p1, w)
          | Some h \<Rightarrow>
              (case h (this_state p1) event (p1, w) of
                 (Inl e, s2) \<Rightarrow> (Inl e, s2)
               | (Inr st, (p2, w2)) \<Rightarrow>
                   (let p3 = p2\<lparr>this_state := Some st\<rparr>
                    in if isStopped p3 then (Inr (), (p3, w2))
                       else handleStreamWithHandlers hs rest (p3, w2)))))"

subsection \<open>run: lines 354-432\<close>

text \<open>The switch before the loop (lines 363-381); \<open>this.delete()\<close> is \<open>delete(true)\<close>.\<close>

definition switch_before_loop ::
  "'x projector_setup \<Rightarrow> bool \<Rightarrow> ProjectionStatus \<Rightarrow> (unit, projector \<times> 'x world) io" where
  "switch_before_loop S keepRunning remote =
     (case remote of
        STOPPING \<Rightarrow> seq (load S) (stop S)
      | DELETING \<Rightarrow> delete S True
      | DELETING_INCL_EMITTED_EVENTS \<Rightarrow> delete S True
      | RESETTING \<Rightarrow> seq (reset S) (if keepRunning then startAgain S else ret ())
      | _ \<Rightarrow> ret ())"

text \<open>The switch inside the loop (lines 411-428).\<close>

definition switch_in_loop ::
  "'x projector_setup \<Rightarrow> bool \<Rightarrow> ProjectionStatus \<Rightarrow> (unit, projector \<times> 'x world) io" where
  "switch_in_loop S keepRunning remote =
     (case remote of
        STOPPING \<Rightarrow> stop S
      | DELETING \<Rightarrow> delete S True
      | DELETING_INCL_EMITTED_EVENTS \<Rightarrow> delete S True
      | RESETTING \<Rightarrow> seq (reset S) (if keepRunning then startAgain S else ret ())
      | _ \<Rightarrow> ret ())"

text \<open>Lines 355-394: everything before the \<open>do\<close>.\<close>

definition run_before_loop ::
  "'x projector_setup \<Rightarrow> 'x callbacks \<Rightarrow> bool \<Rightarrow> (unit, projector \<times> 'x world) io" where
  "run_before_loop S C keepRunning s =
     (case s of (p, w) \<Rightarrow>
      if this_handler C = None \<and> this_handlers C = None then (Inl NoHandler, s)
      else if this_state p = None then (Inl StateNotInitialised, s)
      else
        await (fetchRemoteStatus S) (\<lambda>remote.
        seq (switch_before_loop S keepRunning remote)
       (await (projectionExists S) (\<lambda>exists.
        seq (if exists = False then createProjection S else ret ())
       (await (in_world (in_ext (rm_isInitialized (readModel S)))) (\<lambda>initialized.
        seq (if initialized = False then in_world (in_ext (rm_init (readModel S))) else ret ())
       (seq (prepareStreamPosition S)
       (seq (load S)
            (assign (\<lambda>p. p\<lparr>isStopped := False\<rparr>))))))))) s)"

text \<open>
  Lines 397-430: one pass of the \<open>do\<close> body. \<open>run\<close> has checked that a handler or a
  handler map is set, so the map is there when the single handler is not.
\<close>

definition run_loop_body ::
  "'x projector_setup \<Rightarrow> 'x callbacks \<Rightarrow> bool \<Rightarrow> (unit, projector \<times> 'x world) io" where
  "run_loop_body S C keepRunning s =
     (case s of (p, w) \<Rightarrow>
        await (in_world (mergeAndLoad (eventStore S)
                 (map (\<lambda>(sn, position).
                         \<lparr>streamName = sn, matcher = metadataMatchers p sn,
                          fromNumber = Some (js_add1 position), count = None\<rparr>)
                      (streamPositions p)))) (\<lambda>evenStream.
        seq (case this_handler C of
               Some h \<Rightarrow> handleStreamWithSingleHandler h evenStream
             | None \<Rightarrow>
                 (case this_handlers C of
                    Some hs \<Rightarrow> handleStreamWithHandlers hs evenStream
                  | None \<Rightarrow> throw (Thrown ''TypeError'')))
       (await (fetchRemoteStatus S) (\<lambda>remote.
        seq (switch_in_loop S keepRunning remote)
            (prepareStreamPosition S)))) s)"

text \<open>
  \<open>do { ... } while (keepRunning && !this.isStopped)\<close> may run forever: \<open>None\<close> says that
  the fuel, the number of passes allowed, ran out before the loop ended.
\<close>

fun run_loop ::
  "'x projector_setup \<Rightarrow> 'x callbacks \<Rightarrow> bool \<Rightarrow> nat \<Rightarrow> projector \<times> 'x world
     \<Rightarrow> ((error + unit) \<times> projector \<times> 'x world) option" where
  "run_loop S C keepRunning 0 s = None"
| "run_loop S C keepRunning (Suc fuel) s =
     (case run_loop_body S C keepRunning s of
        (Inl e, s') \<Rightarrow> Some (Inl e, s')
      | (Inr _, s') \<Rightarrow>
          if keepRunning \<and> \<not> isStopped (fst s') then run_loop S C keepRunning fuel s'
          else Some (Inr (), s'))"

definition run ::
  "'x projector_setup \<Rightarrow> 'x callbacks \<Rightarrow> bool \<Rightarrow> nat \<Rightarrow> projector \<times> 'x world
     \<Rightarrow> ((error + unit) \<times> projector \<times> 'x world) option" where
  "run S C keepRunning fuel s =
     (case run_before_loop S C keepRunning s of
        (Inl e, s') \<Rightarrow> Some (Inl e, s')
      | (Inr _, s') \<Rightarrow> run_loop S C keepRunning fuel s')"



section \<open>An in-memory back-end to run the model on\<close>

text \<open>
  The theorems about the event store and the projector hold for every persistence
  strategy, read model and manager. To run the model on concrete inputs this section gives
  one implementation of each, following the spec, since the repository's own in-memory
  ones are not among the sources. The back-end state holds the streams table, the events
  of each stream, whether the read model is initialised, and the list of the calls that
  reached it; \<open>fail\<close> can make any call throw instead of doing its work.
\<close>

datatype call =
  AddStreamToStreamsTable string | RemoveStreamFromStreamsTable string
  | CreateSchema string | DropSchema string
  | PsAppendTo string "IEvent list" | PsMergeAndLoad "LoadStreamParameter list"
  | PsHasStream string | PsDeleteStream string
  | RmInit | RmIsInitialized | RmPersist | RmDelete | RmReset

record mem =
  streams_table :: "string list"
  storage :: "(string \<times> IEvent list) list"
  rm_initialized :: bool
  calls :: "call list"

definition called :: "(call \<Rightarrow> error option) \<Rightarrow> call \<Rightarrow> ('a, mem) io \<Rightarrow> ('a, mem) io" where
  "called fail c body x =
     (let x' = x\<lparr>calls := calls x @ [c]\<rparr>
      in case fail c of Some e \<Rightarrow> (Inl e, x') | None \<Rightarrow> body x')"

fun number_from :: "int \<Rightarrow> IEvent list \<Rightarrow> IEvent list" where
  "number_from k [] = []"
| "number_from k (e # es) = e\<lparr>no := k + 1\<rparr> # number_from (k + 1) es"

fun merge_events :: "IEvent list \<Rightarrow> IEvent list \<Rightarrow> IEvent list" where
  "merge_events [] bs = bs"
| "merge_events (a # as) [] = a # as"
| "merge_events (a # as) (b # bs) =
     (if createdAt a < createdAt b \<or> (createdAt a = createdAt b \<and> no a \<le> no b)
      then a # merge_events as (b # bs)
      else b # merge_events (a # as) bs)"

definition selected ::
  "(IMetadataMatcher \<Rightarrow> IEvent \<Rightarrow> bool) \<Rightarrow> mem \<Rightarrow> LoadStreamParameter \<Rightarrow> IEvent list" where
  "selected matches x q =
     (case map_of (storage x) (streamName q) of
        None \<Rightarrow> []
      | Some evs \<Rightarrow>
          map (\<lambda>e. e\<lparr>metadata := (metadata e)\<lparr>stream := streamName q\<rparr>\<rparr>)
            (filter (\<lambda>e. (case fromNumber q of
                             None \<Rightarrow> True | Some NaN \<Rightarrow> False | Some (Num k) \<Rightarrow> k \<le> no e)
                        \<and> (case matcher q of None \<Rightarrow> True | Some m \<Rightarrow> matches m e))
              evs))"

text \<open>
  Modelled from the spec: the in-memory \<open>PersistenceStrategy\<close>, which is not among the
  sources. Section 4.2: \<open>addStreamToStreamsTable\<close> fails with StreamAlreadyExists on a
  duplicate name; \<open>createSchema\<close> and \<open>dropSchema\<close> make and remove the storage of a
  stream; \<open>appendTo\<close> numbers the batch from the stream's last number on;
  \<open>mergeAndLoad\<close> yields the events numbered from \<open>fromNumber\<close> that the matcher
  accepts, merged by \<open>(createdAt, no)\<close> with ties in the order of the request, each
  tagged with its stream. Deleting an unknown stream fails with StreamNotFound (sections 3
  and 7), and so does here an append to a stream without storage, of which the spec says
  nothing. What a matcher accepts (section 4.1) is the parameter \<open>matches\<close>.
\<close>

definition InMemoryPersistenceStrategy ::
  "(call \<Rightarrow> error option) \<Rightarrow> (IMetadataMatcher \<Rightarrow> IEvent \<Rightarrow> bool) \<Rightarrow> mem PersistenceStrategy" where
  "InMemoryPersistenceStrategy fail matches =
     \<lparr> addStreamToStreamsTable = (\<lambda>n. called fail (AddStreamToStreamsTable n) (\<lambda>x.
         if n \<in> set (streams_table x) then (Inl (Thrown ''StreamAlreadyExists''), x)
         else (Inr (), x\<lparr>streams_table := streams_table x @ [n]\<rparr>))),
       removeStreamFromStreamsTable = (\<lambda>n. called fail (RemoveStreamFromStreamsTable n) (\<lambda>x.
         (Inr (), x\<lparr>streams_table := removeAll n (streams_table x)\<rparr>))),
       createSchema = (\<lambda>n. called fail (CreateSchema n) (\<lambda>x.
         (Inr (), x\<lparr>storage := AList.update n [] (storage x)\<rparr>))),
       dropSchema = (\<lambda>n. called fail (DropSchema n) (\<lambda>x.
         (Inr (), x\<lparr>storage := AList.delete n (storage x)\<rparr>))),
       ps_appendTo = (\<lambda>n evs. called fail (PsAppendTo n evs) (\<lambda>x.
         case map_of (storage x) n of
           None \<Rightarrow> (Inl (Thrown ''StreamNotFound''), x)
         | Some old \<Rightarrow>
             (Inr (), x\<lparr>storage :=
                AList.update n (old @ number_from (int (length old)) evs) (storage x)\<rparr>))),
       ps_mergeAndLoad = (\<lambda>qs. called fail (PsMergeAndLoad qs) (\<lambda>x.
         (Inr (foldl merge_events [] (map (selected matches x) qs)), x))),
       ps_hasStream = (\<lambda>n. called fail (PsHasStream n) (\<lambda>x.
         (Inr (n \<in> set (streams_table x)), x))),
       ps_deleteStream = (\<lambda>n. called fail (PsDeleteStream n) (\<lambda>x.
         if n \<notin> set (streams_table x) then (Inl (Thrown ''StreamNotFound''), x)
         else (Inr (), x\<lparr>streams_table := removeAll n (streams_table x),
                          storage := AList.delete n (storage x)\<rparr>))) \<rparr>"

text \<open>
  Modelled from the spec: a read model, which the application supplies (section 6: \<open>init\<close>,
  \<open>isInitialized\<close>, \<open>persist\<close>, \<open>delete\<close>, \<open>reset\<close>). This one keeps nothing but
  whether it is initialised.
\<close>

definition InMemoryReadModel :: "(call \<Rightarrow> error option) \<Rightarrow> mem IReadModel" where
  "InMemoryReadModel fail =
     \<lparr> rm_init = called fail RmInit (\<lambda>x. (Inr (), x\<lparr>rm_initialized := True\<rparr>)),
       rm_isInitialized = called fail RmIsInitialized (\<lambda>x. (Inr (rm_initialized x), x)),
       rm_persist = called fail RmPersist (\<lambda>x. (Inr (), x)),
       rm_delete = called fail RmDelete (\<lambda>x. (Inr (), x\<lparr>rm_initialized := False\<rparr>)),
       rm_reset = called fail RmReset (\<lambda>x. (Inr (), x)) \<rparr>"

text \<open>
  Modelled from the spec: the in-memory \<open>ProjectionManager\<close>, which is not among the
  sources. Section 4.6: \<open>fetchProjectionStatus\<close> returns the status in the projection
  record and fails without one; \<open>idleProjection\<close> sets the status of the record to IDLE.
\<close>

definition InMemoryProjectionManager :: "'x IProjectionManager" where
  "InMemoryProjectionManager =
     \<lparr> fetchProjectionStatus = (\<lambda>n w.
         case projections w n of
           None \<Rightarrow> (Inl (ProjectionNotFound n), w)
         | Some r \<Rightarrow>
             (case status r of
                None \<Rightarrow> (Inl (Thrown ''status undefined''), w)
              | Some st \<Rightarrow> (Inr st, w))),
       idleProjection = (\<lambda>n w.
         case projections w n of
           None \<Rightarrow> (Inl (ProjectionNotFound n), w)
         | Some r \<Rightarrow>
             (Inr (), w\<lparr>projections := (projections w)(n \<mapsto> r\<lparr>status := Some IDLE\<rparr>)\<rparr>)) \<rparr>"

text \<open>
  Modelled from the spec: \<open>MiddlewareIterator\<close>, which is not among the sources. Section
  4.7: each pull takes the next event of the underlying sequence and folds the list of
  transformers over it. A pull whose transformer throws yields the thrown value.
\<close>

definition MiddlewareIterator_spec ::
  "IEvent list \<Rightarrow> WrappedMiddleware list \<Rightarrow> (error + IEvent) list" where
  "MiddlewareIterator_spec iterator mws =
     map (\<lambda>event. foldl (\<lambda>acc h. case acc of Inl e \<Rightarrow> Inl e | Inr ev \<Rightarrow> h ev) (Inr event) mws)
       iterator"

text \<open>
  Modelled from the spec: \<open>InMemoryEventStore\<close>, which is not among the sources: the event
  store of \<^verbatim>\<open>event-store.ts\<close> with the iterator above, whose \<open>eventStreams\<close> are the streams
  registered in the streams table (section 4.5, step 6).
\<close>

definition InMemoryEventStore_constructor ::
  "EventMiddleWare list \<Rightarrow> mem PersistenceStrategy \<Rightarrow> mem InMemoryEventStore" where
  "InMemoryEventStore_constructor options_middleware strategy =
     \<lparr> persistenceStrategy = strategy,
       middleware =
         middleware (EventStore_constructor options_middleware strategy MiddlewareIterator_spec),
       MiddlewareIterator = MiddlewareIterator_spec,
       eventStreams = streams_table \<rparr>"

section \<open>The spec's words, to compare the code with\<close>

text \<open>
  The spec on \<open>appendTo\<close>: the PRE_APPEND handlers run sequentially per event, in
  registration order, each on the result of the one before. \<open>registered\<close> is the list of
  handlers of an action in the order of \<open>options.middleware\<close>; \<open>left_fold_spec\<close> is the
  left fold of a list of handlers over an event, stopping at the first that throws.
\<close>

definition registered :: "EventAction \<Rightarrow> EventMiddleWare list \<Rightarrow> EventCallback list" where
  "registered a options_middleware =
     map handler (filter (\<lambda>mw. action mw = a) options_middleware)"

definition left_fold_spec :: "EventAction \<Rightarrow> EventCallback list \<Rightarrow> IEvent \<Rightarrow> error + IEvent" where
  "left_fold_spec a hs original =
     foldl (\<lambda>previous h. case previous of Inl e \<Rightarrow> Inl e | Inr event \<Rightarrow> h event a)
       (Inr original) hs"

text \<open>
  The spec on the build phase speaks of calls to any of \<open>fromAll\<close>, \<open>fromStream\<close> and
  \<open>fromStreams\<close>: \<open>call_from\<close> makes one such call, \<open>from_calls\<close> a sequence of them on
  the same projector, with the outcome of each.
\<close>

datatype from_call = FromAll | FromStream IStream | FromStreams "IStream list"

fun call_from :: "from_call \<Rightarrow> (unit, projector) io" where
  "call_from FromAll = fromAll"
| "call_from (FromStream s) = fromStream s"
| "call_from (FromStreams streams) = fromStreams streams"

fun from_calls :: "from_call list \<Rightarrow> projector \<Rightarrow> (error + unit) list \<times> projector" where
  "from_calls [] p = ([], p)"
| "from_calls (c # cs) p =
     (case call_from c p of (r, p') \<Rightarrow>
        (case from_calls cs p' of (rs, p'') \<Rightarrow> (r # rs, p'')))"


section \<open>Concrete projectors and worlds\<close>

definition ev :: "int \<Rightarrow> string \<Rightarrow> string \<Rightarrow> IEvent" where
  "ev k event_name sn =
     \<lparr>no = k, uuid = ''u'', name = event_name, payload = '''',
      metadata = \<lparr>aggregate_id = ''a'', aggregate_type = ''A'', aggregate_version = k,
                  stream = sn\<rparr>,
      createdAt = k\<rparr>"

definition no_failure :: "call \<Rightarrow> error option" where
  "no_failure c = None"

definition failing :: "call \<Rightarrow> string \<Rightarrow> call \<Rightarrow> error option" where
  "failing c msg c' = (if c' = c then Some (Thrown msg) else None)"

definition failing2 :: "call \<Rightarrow> string \<Rightarrow> call \<Rightarrow> string \<Rightarrow> call \<Rightarrow> error option" where
  "failing2 c1 msg1 c2 msg2 c' =
     (if c' = c1 then Some (Thrown msg1) else if c' = c2 then Some (Thrown msg2) else None)"

text \<open>
  Modelled from the spec: what a matcher accepts, which no source file decides. Section
  4.1 for the one kind of clause used below: the metadata field \<open>_aggregate_version\<close>
  compared with \<open>>\<close> to a number; a matcher is the conjunction of its clauses, and a
  clause of another kind is not accepted here.
\<close>

definition version_above :: "IMetadataMatcher \<Rightarrow> IEvent \<Rightarrow> bool" where
  "version_above m e =
     list_all (\<lambda>c. fieldType c = METADATA \<and> field c = ''_aggregate_version'' \<and>
                    operation c = GREATER_THAN \<and>
                    (case value c of VNumber k \<Rightarrow> k < aggregate_version (metadata e)
                                   | _ \<Rightarrow> False)) m"

definition store_with :: "(call \<Rightarrow> error option) \<Rightarrow> mem InMemoryEventStore" where
  "store_with fail =
     InMemoryEventStore_constructor [] (InMemoryPersistenceStrategy fail version_above)"

definition setup_with :: "(call \<Rightarrow> error option) \<Rightarrow> mem projector_setup" where
  "setup_with fail =
     \<lparr>this_name = ''proj'', manager = InMemoryProjectionManager, eventStore = store_with fail,
      readModel = InMemoryReadModel fail, initHandler = Some [''n'' \<mapsto> 0]\<rparr>"

definition setup0 :: "mem projector_setup" where
  "setup0 = setup_with no_failure"

text \<open>The handler \<open>(state, event) => ({n: (state.n || 0) + 1})\<close>.\<close>

definition counting :: "mem handler_fn" where
  "counting st event s =
     (Inr [''n'' \<mapsto> (case st of None \<Rightarrow> 0
                        | Some m \<Rightarrow> (case m ''n'' of None \<Rightarrow> 0 | Some k \<Rightarrow> k)) + 1], s)"

text \<open>The handler \<open>async (state, event) => { await this.linkTo('out', event); return state }\<close>.\<close>

definition forwarding :: "mem handler_fn" where
  "forwarding st event s =
     (case linkTo setup0 ''out'' event s of
        (Inl e, s') \<Rightarrow> (Inl e, s')
      | (Inr u, s') \<Rightarrow> (Inr (case st of None \<Rightarrow> Map.empty | Some m \<Rightarrow> m), s'))"

text \<open>
  The counting handler, during which the manager's \<open>deleteProjection\<close> sets the status of
  the record of \<open>proj\<close> to DELETING.
\<close>

definition counting_while_deleted :: "mem handler_fn" where
  "counting_while_deleted st event s =
     (case s of (p, w) \<Rightarrow>
        counting st event
          (p, w\<lparr>projections :=
                  (case projections w ''proj'' of
                     None \<Rightarrow> projections w
                   | Some r \<Rightarrow> (projections w)(''proj'' \<mapsto> r\<lparr>status := Some DELETING\<rparr>))\<rparr>))"


definition callbacks0 :: "mem callbacks" where
  "callbacks0 = \<lparr>this_handlers = None, this_handler = Some counting\<rparr>"

text \<open>The projector as constructed (lines 176-192).\<close>

definition new_projector :: projector where
  "new_projector =
     \<lparr>this_state = None, metadataMatchers = Map.empty, streamPositions = [],
      streamCreated = False, isStopped = False, query_all = False, query_streams = [],
      this_status = IDLE\<rparr>"

text \<open>After \<open>init(() => ({n: 0}))\<close> and \<open>fromStream({streamName: 's'})\<close>.\<close>

definition projector0 :: projector where
  "projector0 = new_projector\<lparr>this_state := Some [''n'' \<mapsto> 0], query_streams := [''s'']\<rparr>"

text \<open>
  After \<open>init\<close> and \<open>fromStream({streamName: 's', matcher: {data: [{field:
  '_aggregate_version', value: 1, operation: '>', fieldType: 'metadata'}]}})\<close>.
\<close>

definition projector_matching :: projector where
  "projector_matching =
     projector0\<lparr>metadataMatchers :=
       [''s'' \<mapsto> [\<lparr>field = ''_aggregate_version'', value = VNumber 1,
                      operation = GREATER_THAN, fieldType = METADATA\<rparr>]]\<rparr>"

definition mem_with :: "(string \<times> IEvent list) list \<Rightarrow> mem" where
  "mem_with streams =
     \<lparr>streams_table = map fst streams, storage = streams, rm_initialized = False, calls = []\<rparr>"

definition world_with ::
  "(string \<times> IEvent list) list \<Rightarrow> (string \<rightharpoonup> projection) \<Rightarrow> mem world" where
  "world_with streams records =
     \<lparr>ext = mem_with streams, projections = records, floating = [], console = []\<rparr>"

text \<open>One stream \<open>s\<close> holding one event, and no projection record.\<close>

definition world0 :: "mem world" where
  "world0 = world_with [(''s'', [ev 1 ''Inc'' ''s''])] Map.empty"

text \<open>The same with a record of \<open>proj\<close> that the manager has set to DELETING.\<close>

definition world_deleting :: "mem world" where
  "world_deleting =
     world_with [(''s'', [ev 1 ''Inc'' ''s''])]
       [''proj'' \<mapsto> \<lparr>state = Map.empty, positions = [], status = Some DELETING\<rparr>]"

text \<open>
  The stream \<open>s\<close> with two events, an empty stream \<open>out\<close>, and no projection record.
\<close>

definition world_two :: "mem world" where
  "world_two =
     world_with [(''s'', [ev 1 ''Inc'' ''s'', ev 2 ''Inc'' ''s'']), (''out'', [])] Map.empty"

text \<open>
  The projection \<open>proj\<close> with its record and with a stream of its own name holding one
  emitted event.
\<close>

definition world_emitted :: "mem world" where
  "world_emitted =
     world_with [(''s'', [ev 1 ''Inc'' ''s'']), (''proj'', [ev 1 ''Out'' ''proj''])]
       [''proj'' \<mapsto> \<lparr>state = Map.empty, positions = [(''s'', Num 1)], status = Some RUNNING\<rparr>]"

text \<open>Middleware: two PRE_APPEND handlers that sign the payload, with an observer between.\<close>

definition sign :: "string \<Rightarrow> EventCallback" where
  "sign mark event a = Inr (event\<lparr>payload := payload event @ mark\<rparr>)"

definition middleware0 :: "EventMiddleWare list" where
  "middleware0 =
     [\<lparr>action = PRE_APPEND, handler = sign ''1''\<rparr>,
      \<lparr>action = APPEND_ERRORED, handler = sign ''x''\<rparr>,
      \<lparr>action = PRE_APPEND, handler = sign ''2''\<rparr>]"

text \<open>The same with a record of \<open>proj\<close> in status RUNNING.\<close>

definition world_running :: "mem world" where
  "world_running =
     world_with [(''s'', [ev 1 ''Inc'' ''s''])]
       [''proj'' \<mapsto> \<lparr>state = Map.empty, positions = [], status = Some RUNNING\<rparr>]"

text \<open>
  Middleware with observers of a failed append: one PRE_APPEND handler, and two
  APPEND_ERRORED handlers that sign \<open>x\<close> and then \<open>y\<close>.
\<close>

definition middleware1 :: "EventMiddleWare list" where
  "middleware1 =
     [\<lparr>action = APPEND_ERRORED, handler = sign ''x''\<rparr>,
      \<lparr>action = PRE_APPEND, handler = sign ''1''\<rparr>,
      \<lparr>action = APPEND_ERRORED, handler = sign ''y''\<rparr>]"

section \<open>Helper lemmas\<close>

lemmas io_defs = ret_def throw_def await_def seq_def in_world_def assign_def in_ext_def

lemma pair_of_fst: "fst m = r \<Longrightarrow> m = (r, snd m)"
  by (cases m) simp

lemma bucket_foldl:
  "foldl (\<lambda>carry mw. carry(action mw := carry (action mw) @ [handler mw])) c mws a
     = c a @ map handler (filter (\<lambda>mw. action mw = a) mws)"
  by (induction mws arbitrary: c) auto

lemma constructor_middleware:
  "middleware (EventStore_constructor mws strategy it) a = registered a mws"
  by (simp add: EventStore_constructor_def registered_def bucket_foldl)

lemma reduce_chain_foldl:
  "reduce_chain a hs acc =
     foldl (\<lambda>previous h. case previous of Inl e \<Rightarrow> Inl e | Inr event \<Rightarrow> h event a) acc hs"
  by (induction hs arbitrary: acc) auto

lemma Promise_all_list_all2:
  "list_all2 (\<lambda>a b. f a = Inr b) xs ys \<Longrightarrow> Promise_all (map f xs) = Inr ys"
  by (induction xs ys rule: list_all2_induct) auto

lemma call_from_guard:
  "query_all p \<or> length (query_streams p) > 0 \<Longrightarrow> call_from c p = (Inl FromAlreadyCalled, p)"
  by (cases c) (auto simp: fromAll_def fromStream_def fromStreams_def)

lemma from_calls_guard:
  "query_all p \<or> length (query_streams p) > 0 \<Longrightarrow>
     from_calls cs p = (replicate (length cs) (Inl FromAlreadyCalled), p)"
  by (induction cs) (auto simp: call_from_guard simp del: call_from.simps)

lemma call_from_sets_guard:
  "call_from c p = (Inr (), p') \<Longrightarrow> c \<noteq> FromStreams [] \<Longrightarrow>
     query_all p' \<or> length (query_streams p') > 0"
  by (cases c) (auto simp: fromAll_def fromStream_def fromStreams_def split: if_splits)

lemma reset_unfold:
  "reset S (p, w) =
     (case rm_reset (readModel S) (ext w) of
        (Inl e, x1) \<Rightarrow> (Inl e, (p\<lparr>streamPositions := []\<rparr>, w\<lparr>ext := x1\<rparr>))
      | (Inr u, x1) \<Rightarrow>
          (case ps_deleteStream (persistenceStrategy (eventStore S)) (this_name S) x1 of
             (r, x2) \<Rightarrow>
               (r, (p\<lparr>streamPositions := [], this_state := initHandler S\<rparr>,
                    w\<lparr>ext := x2,
                      projections := (projections w)(this_name S \<mapsto>
                        \<lparr>state = Map.empty, positions = [], status = Some IDLE\<rparr>)\<rparr>))))"
  by (simp add: reset_def io_defs deleteStream_def split: prod.splits sum.splits option.splits)

lemma emit_cached:
  "streamCreated p \<Longrightarrow>
     emit S event (p, w) =
       (Inr (), (p, w\<lparr>floating := floating w @ [AppendTo (this_name S) [event]]\<rparr>))"
  by (simp add: emit_def io_defs)

lemma reset_keeps_streamCreated:
  "reset S (p, w) = (r, (p', w')) \<Longrightarrow> streamCreated p' = streamCreated p"
  unfolding reset_unfold
  by (cases "rm_reset (readModel S) (ext w)") (auto split: sum.splits prod.splits)

lemma reset_deletes_stream:
  "reset S (p, w) = (Inr (), (p', w')) \<Longrightarrow>
     \<exists>x1. rm_reset (readModel S) (ext w) = (Inr (), x1) \<and>
          ps_deleteStream (persistenceStrategy (eventStore S)) (this_name S) x1 = (Inr (), ext w')"
  unfolding reset_unfold
  by (cases "rm_reset (readModel S) (ext w)") (auto split: sum.splits prod.splits)











section \<open>C1: the position of a stream after an event\<close>

text \<open>
  C1 says that the fold sets \<open>positions[event.metadata.stream]\<close> to the number of the event
  it has been handed, on the single-handler path and on the handler-map path, also for an
  event without a registered handler. The code increments the position instead. Here the
  stream \<open>s\<close> stands at position 0 and the merged sequence yields its event number 2 (a
  matcher has left out number 1): after the event the position is 1 on both paths, the
  second with an event name that has no handler.
\<close>

theorem position_is_incremented_not_set:
  "streamPositions (fst (snd (handleStreamWithSingleHandler counting [Inr (ev 2 ''Inc'' ''s'')]
       (projector0\<lparr>streamPositions := [(''s'', Num 0)]\<rparr>, world_two)))) = [(''s'', Num 1)]
   \<and> streamPositions (fst (snd (handleStreamWithHandlers [''Inc'' \<mapsto> counting]
       [Inr (ev 2 ''Other'' ''s'')]
       (projector0\<lparr>streamPositions := [(''s'', Num 0)]\<rparr>, world_two)))) = [(''s'', Num 1)]"
  by code_simp

text \<open>
  What follows from it: \<open>run\<close> asks for the events from \<open>position + 1\<close> on, so a position
  behind the last event handled brings that event back. The projector reads \<open>s\<close> through
  the matcher \<open>_aggregate_version > 1\<close> and forwards each event to the stream \<open>out\<close>. The
  first \<open>run(false)\<close> handles event 2 and leaves the position at 1; the second asks from 2
  on, handles event 2 again, and \<open>out\<close> holds it twice.
\<close>

lemma filtered_event_is_handled_twice:
  "(case run setup0 \<lparr>this_handlers = None, this_handler = Some forwarding\<rparr> False 1
          (projector_matching, world_two) of
      Some (Inr u, (p1, w1)) \<Rightarrow>
        streamPositions p1 = [(''s'', Num 1)] \<and>
        map (map (\<lambda>e. aggregate_version (metadata e))) (map snd (storage (ext w1))) = [[1, 2], [2]] \<and>
        (case run setup0 \<lparr>this_handlers = None, this_handler = Some forwarding\<rparr> False 1 (p1, w1) of
           Some (Inr u, (p2, w2)) \<Rightarrow>
             streamPositions p2 = [(''s'', Num 2)] \<and>
             map (map (\<lambda>e. aggregate_version (metadata e))) (map snd (storage (ext w2)))
               = [[1, 2], [2, 2]]
         | _ \<Rightarrow> False)
    | _ \<Rightarrow> False)"
  by code_simp

section \<open>C2: what run persists\<close>





section \<open>C3: DELETING seen at a poll\<close>

text \<open>
  C3 says that a run that polls DELETING ends deleted: the record is removed and not
  created again, and no event is fetched or handled afterwards. The poll before the loop
  does not end the run. Here the record of \<open>proj\<close> is in status DELETING when
  \<open>run(false)\<close> starts: the run deletes the read model, then creates the record again
  (status IDLE), asks the store for the events of \<open>s\<close>, hands the event to the handler
  (\<open>n\<close> is 1) and moves the position to 1.
\<close>

theorem run_goes_on_after_delete:
  "(case run setup0 callbacks0 False 1 (projector0, world_deleting) of
      Some (Inr u, (p, w)) \<Rightarrow>
        map_option status (projections w ''proj'') = Some (Some IDLE) \<and>
        calls (ext w) =
          [RmDelete, RmIsInitialized, RmInit,
           PsMergeAndLoad [\<lparr>streamName = ''s'', matcher = None, fromNumber = Some (Num 1),
                            count = None\<rparr>]] \<and>
        map_option (\<lambda>m. m ''n'') (this_state p) = Some (Some 1) \<and>
        streamPositions p = [(''s'', Num 1)]
    | _ \<Rightarrow> False)"
  by code_simp

text \<open>
  The poll inside the loop does what C3 says. Here the status becomes DELETING while the
  one event is handled, in a \<open>run(true)\<close>: the run returns after that pass, the record
  is gone, the store was asked for events once, and \<open>isStopped\<close> is set.
\<close>

lemma delete_seen_in_loop_ends_run:
  "(case run setup0 \<lparr>this_handlers = None, this_handler = Some counting_while_deleted\<rparr> True 1
          (projector0, world_running) of
      Some (Inr u, (p, w)) \<Rightarrow>
        projections w ''proj'' = None \<and> isStopped p \<and>
        calls (ext w) =
          [RmIsInitialized, RmInit,
           PsMergeAndLoad [\<lparr>streamName = ''s'', matcher = None, fromNumber = Some (Num 1),
                            count = None\<rparr>],
           RmDelete]
    | _ \<Rightarrow> False)"
  by code_simp

section \<open>C4: delete\<close>

text \<open>
  C4 says that \<open>delete\<close> with a true flag also deletes the stream named after the
  projection. It does not: after \<open>delete(true)\<close> the record of \<open>proj\<close> is gone, the stream
  \<open>proj\<close> is still registered and still holds its event, and the only call that reached
  the back-end is the read model's \<open>delete\<close>.
\<close>

theorem delete_keeps_emitted_stream:
  "(case delete setup0 True (projector0, world_emitted) of
      (Inr u, (p, w)) \<Rightarrow>
        projections w ''proj'' = None \<and>
        ''proj'' \<in> set (streams_table (ext w)) \<and>
        map_of (storage (ext w)) ''proj'' = Some [ev 1 ''Out'' ''proj''] \<and>
        calls (ext w) = [RmDelete]
    | _ \<Rightarrow> False)"
  by code_simp

text \<open>
  C4 as amended: \<open>delete(deleteProjection)\<close> removes the projection record, sets
  \<open>isStopped\<close>, leaves the state at what the init handler returns (undefined without one),
  and starts no call; with a true flag its one effect on the back-end is
  \<open>readModel.delete()\<close>, whose outcome is the outcome of \<open>delete\<close>, with a false flag it
  leaves the back-end as it is and returns normally; when it returns normally the positions
  are empty. No stream is deleted, whatever the flag.
\<close>

theorem delete_touches_no_stream:
  assumes "delete S flag (p, w) = (r, (p', w'))"
  shows "projections w' = (projections w)(this_name S := None)
       \<and> isStopped p'
       \<and> this_state p' = initHandler S
       \<and> floating w' = floating w
       \<and> (flag \<longrightarrow> rm_delete (readModel S) (ext w) = (r, ext w'))
       \<and> (\<not> flag \<longrightarrow> r = Inr () \<and> ext w' = ext w)
       \<and> (r = Inr () \<longrightarrow> streamPositions p' = [])"
  using assms
  by (auto simp: delete_def io_defs split: prod.splits sum.splits option.splits if_splits)

theorem delete_touches_no_stream_witness:
  "(case delete setup0 True (projector0, world_emitted) of
      (r, (p', w')) \<Rightarrow>
        projections w' = (projections world_emitted)(''proj'' := None)
        \<and> isStopped p' \<and> this_state p' = Some [''n'' \<mapsto> 0]
        \<and> rm_delete (readModel setup0) (ext world_emitted) = (r, ext w')
        \<and> r = Inr () \<and> streamPositions p' = [])
   \<and> (case delete setup0 False (projector0, world_emitted) of
      (r, (p', w')) \<Rightarrow>
        projections w' = (projections world_emitted)(''proj'' := None)
        \<and> isStopped p' \<and> r = Inr () \<and> ext w' = ext world_emitted \<and> streamPositions p' = [])"
proof -
  let ?X = "delete setup0 True (projector0, world_emitted)"
  let ?Y = "delete setup0 False (projector0, world_emitted)"
  have X: "?X = (fst ?X, (fst (snd ?X), snd (snd ?X)))"
    and Y: "?Y = (fst ?Y, (fst (snd ?Y), snd (snd ?Y)))" by simp_all
  have f: "fst ?X = Inr ()" by code_simp
  have n: "this_name setup0 = ''proj''" "initHandler setup0 = Some [''n'' \<mapsto> 0]"
    by (simp_all add: setup0_def setup_with_def)
  show ?thesis
    using delete_touches_no_stream [OF X] delete_touches_no_stream [OF Y] f n
    by (simp add: case_prod_beta)
qed

section \<open>C5: createStream\<close>

text \<open>
  C5 says that when schema creation fails the registration is rolled back, a schema drop
  is attempted and the schema-creation error is re-thrown. The rollback is itself awaited
  inside the \<open>catch\<close>: here \<open>createSchema\<close> throws \<open>schema\<close> and
  \<open>removeStreamFromStreamsTable\<close> throws \<open>rollback\<close>; the caller gets \<open>rollback\<close>,
  \<open>dropSchema\<close> is never called, and the stream stays registered.
\<close>

theorem failed_rollback_replaces_schema_error:
  "(case createStream
           (store_with (failing2 (CreateSchema ''t'') ''schema''
                                 (RemoveStreamFromStreamsTable ''t'') ''rollback''))
           ''t'' world0 of
      (r, w) \<Rightarrow>
        r = Inl (Thrown ''rollback'') \<and>
        calls (ext w) =
          [AddStreamToStreamsTable ''t'', CreateSchema ''t'', RemoveStreamFromStreamsTable ''t''] \<and>
        ''t'' \<in> set (streams_table (ext w)))"
  by code_simp

text \<open>
  C5 as amended: when \<open>addStreamToStreamsTable\<close> throws, \<open>createStream\<close> warns with the
  error, returns normally and calls nothing else. When it returns and \<open>createSchema\<close>
  throws, \<open>removeStreamFromStreamsTable\<close> is called and, if that returns,
  \<open>dropSchema\<close>; if both return, the error of \<open>createSchema\<close> is thrown to the caller; an
  error thrown by \<open>removeStreamFromStreamsTable\<close> or by \<open>dropSchema\<close> is thrown to the
  caller in its place.
\<close>

theorem createStream_two_phase:
  "(addStreamToStreamsTable (persistenceStrategy es) sn (ext w) = (Inl e, x1) \<longrightarrow>
      createStream es sn w = (Inr (), w\<lparr>ext := x1, console := console w @ [e]\<rparr>))
   \<and> (addStreamToStreamsTable (persistenceStrategy es) sn (ext w) = (Inr (), x1) \<and>
      createSchema (persistenceStrategy es) sn x1 = (Inl e, x2) \<longrightarrow>
        (removeStreamFromStreamsTable (persistenceStrategy es) sn x2 = (Inl e', x3) \<longrightarrow>
           createStream es sn w = (Inl e', w\<lparr>ext := x3\<rparr>))
      \<and> (removeStreamFromStreamsTable (persistenceStrategy es) sn x2 = (Inr (), x3) \<longrightarrow>
           (dropSchema (persistenceStrategy es) sn x3 = (Inl e', x4) \<longrightarrow>
              createStream es sn w = (Inl e', w\<lparr>ext := x4\<rparr>))
         \<and> (dropSchema (persistenceStrategy es) sn x3 = (Inr (), x4) \<longrightarrow>
              createStream es sn w = (Inl e, w\<lparr>ext := x4\<rparr>))))"
  by (simp add: createStream_def in_ext_def)

text \<open>
  On the in-memory back-end: registering the existing stream \<open>s\<close> is swallowed; a failing
  \<open>createSchema\<close> is rolled back and re-thrown; a failing \<open>dropSchema\<close> replaces it.
\<close>

theorem createStream_two_phase_witness:
  "createStream (store_with no_failure) ''s'' world0
     = (Inr (), world0\<lparr>ext := (ext world0)\<lparr>calls := [AddStreamToStreamsTable ''s'']\<rparr>,
                       console := console world0 @ [Thrown ''StreamAlreadyExists'']\<rparr>)
   \<and> createStream (store_with (failing (CreateSchema ''t'') ''schema'')) ''t'' world0
     = (Inl (Thrown ''schema''),
        world0\<lparr>ext := (ext world0)\<lparr>calls :=
          [AddStreamToStreamsTable ''t'', CreateSchema ''t'', RemoveStreamFromStreamsTable ''t'',
           DropSchema ''t'']\<rparr>\<rparr>)
   \<and> createStream (store_with (failing2 (CreateSchema ''t'') ''schema'' (DropSchema ''t'') ''drop''))
        ''t'' world0
     = (Inl (Thrown ''drop''),
        world0\<lparr>ext := (ext world0)\<lparr>calls :=
          [AddStreamToStreamsTable ''t'', CreateSchema ''t'', RemoveStreamFromStreamsTable ''t'',
           DropSchema ''t'']\<rparr>\<rparr>)"
proof -
  let ?x = "ext world0"
  let ?A = "AddStreamToStreamsTable ''t''" and ?C = "CreateSchema ''t''"
  let ?R = "RemoveStreamFromStreamsTable ''t''" and ?D = "DropSchema ''t''"
  let ?x1 = "?x\<lparr>streams_table := [''s'', ''t''], calls := [?A]\<rparr>"
  let ?x2 = "?x\<lparr>streams_table := [''s'', ''t''], calls := [?A, ?C]\<rparr>"
  let ?x3 = "?x\<lparr>calls := [?A, ?C, ?R]\<rparr>"
  let ?x4 = "?x\<lparr>calls := [?A, ?C, ?R, ?D]\<rparr>"
  let ?es0 = "store_with no_failure"
  let ?es1 = "store_with (failing (CreateSchema ''t'') ''schema'')"
  let ?es2 = "store_with (failing2 (CreateSchema ''t'') ''schema'' (DropSchema ''t'') ''drop'')"
  have a0: "addStreamToStreamsTable (persistenceStrategy ?es0) ''s'' ?x
              = (Inl (Thrown ''StreamAlreadyExists''), ?x\<lparr>calls := [AddStreamToStreamsTable ''s'']\<rparr>)"
    by code_simp
  have a1: "addStreamToStreamsTable (persistenceStrategy ?es1) ''t'' ?x = (Inr (), ?x1)
          \<and> createSchema (persistenceStrategy ?es1) ''t'' ?x1 = (Inl (Thrown ''schema''), ?x2)"
    by code_simp
  have r1: "removeStreamFromStreamsTable (persistenceStrategy ?es1) ''t'' ?x2 = (Inr (), ?x3)"
    by code_simp
  have d1: "dropSchema (persistenceStrategy ?es1) ''t'' ?x3 = (Inr (), ?x4)"
    by code_simp
  have a2: "addStreamToStreamsTable (persistenceStrategy ?es2) ''t'' ?x = (Inr (), ?x1)
          \<and> createSchema (persistenceStrategy ?es2) ''t'' ?x1 = (Inl (Thrown ''schema''), ?x2)"
    by code_simp
  have r2: "removeStreamFromStreamsTable (persistenceStrategy ?es2) ''t'' ?x2 = (Inr (), ?x3)"
    by code_simp
  have d2: "dropSchema (persistenceStrategy ?es2) ''t'' ?x3 = (Inl (Thrown ''drop''), ?x4)"
    by code_simp
  note t0 = createStream_two_phase [of ?es0 "''s''" world0, THEN conjunct1, rule_format, OF a0]
  note t1 = createStream_two_phase [of ?es1 "''t''" world0, THEN conjunct2, rule_format, OF a1,
              THEN conjunct2, rule_format, OF r1, THEN conjunct2, rule_format, OF d1]
  note t2 = createStream_two_phase [of ?es2 "''t''" world0, THEN conjunct2, rule_format, OF a2,
              THEN conjunct2, rule_format, OF r2, THEN conjunct1, rule_format, OF d2]
  show ?thesis using t0 t1 t2 by simp
qed

section \<open>C6: a failing append\<close>

text \<open>
  C6: when \<open>appendTo\<close> is called with a non-empty batch, the PRE_APPEND phase has given
  the batch that goes to the back-end, and \<open>PersistenceStrategy.appendTo\<close> throws \<open>e\<close> on
  it, then for each event of that batch, in batch order, the chain of the APPEND_ERRORED
  handlers is started on the event, each handler on the result of the one before, and
  \<open>appendTo\<close> throws the same \<open>e\<close>. The chains are started, not awaited: what they
  settle to reaches nobody.
\<close>

theorem appendTo_rethrows_persistence_error:
  assumes "events \<noteq> []"
    and "list_all2 (\<lambda>original handed.
           left_fold_spec PRE_APPEND (middleware es PRE_APPEND) original = Inr handed)
           events batch"
    and "ps_appendTo (persistenceStrategy es) sn batch (ext w) = (Inl e, x')"
  shows "appendTo es sn events w =
           (Inl e, w\<lparr>ext := x', floating := floating w @
              map (\<lambda>event. Chain APPEND_ERRORED event
                     (left_fold_spec APPEND_ERRORED (middleware es APPEND_ERRORED) event))
                  batch\<rparr>)"
proof -
  have "Promise_all (map (\<lambda>event. reduce_chain PRE_APPEND (middleware es PRE_APPEND) (Inr event))
          events) = Inr batch"
    using assms(2)
    by (intro Promise_all_list_all2) (simp add: reduce_chain_foldl left_fold_spec_def)
  then show ?thesis
    using assms(1, 3)
    by (simp add: appendTo_def in_ext_def reduce_chain_foldl left_fold_spec_def)
qed

text \<open>
  With one PRE_APPEND handler that signs \<open>1\<close> and the APPEND_ERRORED handlers that sign
  \<open>x\<close> and then \<open>y\<close>, on a back-end whose \<open>appendTo\<close> throws: the back-end is called with
  the two events signed \<open>1\<close>, the caller gets its error, and the two chains left floating
  settle to the events signed \<open>1xy\<close>.
\<close>

theorem appendTo_rethrows_persistence_error_witness:
  "[ev 1 ''Inc'' ''s'', ev 2 ''Inc'' ''s''] \<noteq> []
   \<and> appendTo
        (InMemoryEventStore_constructor middleware1
           (InMemoryPersistenceStrategy
              (failing (PsAppendTo ''s'' [ev 1 ''Inc'' ''s''\<lparr>payload := ''1''\<rparr>,
                                         ev 2 ''Inc'' ''s''\<lparr>payload := ''1''\<rparr>]) ''db'')
              version_above))
        ''s'' [ev 1 ''Inc'' ''s'', ev 2 ''Inc'' ''s''] world0
      = (Inl (Thrown ''db''),
         world0\<lparr>ext := (ext world0)\<lparr>calls :=
                   [PsAppendTo ''s'' [ev 1 ''Inc'' ''s''\<lparr>payload := ''1''\<rparr>,
                                    ev 2 ''Inc'' ''s''\<lparr>payload := ''1''\<rparr>]]\<rparr>,
                floating :=
                  [Chain APPEND_ERRORED (ev 1 ''Inc'' ''s''\<lparr>payload := ''1''\<rparr>)
                     (Inr (ev 1 ''Inc'' ''s''\<lparr>payload := ''1xy''\<rparr>)),
                   Chain APPEND_ERRORED (ev 2 ''Inc'' ''s''\<lparr>payload := ''1''\<rparr>)
                     (Inr (ev 2 ''Inc'' ''s''\<lparr>payload := ''1xy''\<rparr>))]\<rparr>)"
proof -
  let ?batch = "[ev 1 ''Inc'' ''s''\<lparr>payload := ''1''\<rparr>, ev 2 ''Inc'' ''s''\<lparr>payload := ''1''\<rparr>]"
  let ?es = "InMemoryEventStore_constructor middleware1
               (InMemoryPersistenceStrategy (failing (PsAppendTo ''s'' ?batch) ''db'') version_above)"
  have h1: "[ev 1 ''Inc'' ''s'', ev 2 ''Inc'' ''s''] \<noteq> []" by simp
  have h2: "list_all2 (\<lambda>original handed.
              left_fold_spec PRE_APPEND (middleware ?es PRE_APPEND) original = Inr handed)
              [ev 1 ''Inc'' ''s'', ev 2 ''Inc'' ''s''] ?batch"
    by code_simp
  have h3: "ps_appendTo (persistenceStrategy ?es) ''s'' ?batch (ext world0)
            = (Inl (Thrown ''db''), (ext world0)\<lparr>calls := [PsAppendTo ''s'' ?batch]\<rparr>)"
    by code_simp
  have f: "floating world0 @
             map (\<lambda>event. Chain APPEND_ERRORED event
                    (left_fold_spec APPEND_ERRORED (middleware ?es APPEND_ERRORED) event)) ?batch
           = [Chain APPEND_ERRORED (ev 1 ''Inc'' ''s''\<lparr>payload := ''1''\<rparr>)
                (Inr (ev 1 ''Inc'' ''s''\<lparr>payload := ''1xy''\<rparr>)),
              Chain APPEND_ERRORED (ev 2 ''Inc'' ''s''\<lparr>payload := ''1''\<rparr>)
                (Inr (ev 2 ''Inc'' ''s''\<lparr>payload := ''1xy''\<rparr>))]"
    by code_simp
  show ?thesis
    using h1 appendTo_rethrows_persistence_error [OF h1 h2 h3] by (simp only: f simp_thms)
qed

section \<open>C7: what reaches the back-end\<close>

text \<open>
  C7: for a non-empty batch, the events that \<open>appendTo\<close> hands to
  \<open>PersistenceStrategy.appendTo\<close> are, event by event, the left fold of the PRE_APPEND
  handlers, in the order in which \<open>options.middleware\<close> registered them, over the caller's
  event; the back-end is called once, with that batch, and its outcome is the outcome of
  \<open>appendTo\<close>. The observers of the outcome are then started on the same batch.
\<close>

theorem appendTo_hands_over_pre_append_fold:
  assumes "events \<noteq> []"
    and "list_all2 (\<lambda>original handed.
           left_fold_spec PRE_APPEND (registered PRE_APPEND options_middleware) original = Inr handed)
           events handed_over"
  shows "appendTo (EventStore_constructor options_middleware strategy it) sn events w =
           (case ps_appendTo strategy sn handed_over (ext w) of
              (Inr u, x') \<Rightarrow>
                (Inr (), w\<lparr>ext := x', floating := floating w @
                   map (\<lambda>event. Chain APPENDED event
                          (left_fold_spec APPENDED (registered APPENDED options_middleware) event))
                       handed_over\<rparr>)
            | (Inl e, x') \<Rightarrow>
                (Inl e, w\<lparr>ext := x', floating := floating w @
                   map (\<lambda>event. Chain APPEND_ERRORED event
                          (left_fold_spec APPEND_ERRORED
                             (registered APPEND_ERRORED options_middleware) event))
                       handed_over\<rparr>))"
proof -
  let ?es = "EventStore_constructor options_middleware strategy it"
  have "Promise_all (map (\<lambda>event. reduce_chain PRE_APPEND (middleware ?es PRE_APPEND) (Inr event))
          events) = Inr handed_over"
    using assms(2)
    by (intro Promise_all_list_all2) (simp add: constructor_middleware reduce_chain_foldl left_fold_spec_def)
  moreover have "persistenceStrategy ?es = strategy"
    by (simp add: EventStore_constructor_def)
  ultimately show ?thesis
    using assms(1)
    by (simp add: appendTo_def in_ext_def constructor_middleware reduce_chain_foldl
          left_fold_spec_def split: prod.splits sum.splits)
qed

text \<open>
  With the handlers \<open>sign 1\<close> and \<open>sign 2\<close> registered for PRE_APPEND around an observer,
  the back-end receives the event signed \<open>12\<close>.
\<close>

theorem appendTo_hands_over_pre_append_fold_witness:
  "[ev 1 ''Inc'' ''s''] \<noteq> []
   \<and> list_all2 (\<lambda>original handed.
        left_fold_spec PRE_APPEND (registered PRE_APPEND middleware0) original = Inr handed)
        [ev 1 ''Inc'' ''s''] [ev 1 ''Inc'' ''s''\<lparr>payload := ''12''\<rparr>]
   \<and> calls (ext (snd (appendTo
        (EventStore_constructor middleware0 (InMemoryPersistenceStrategy no_failure version_above)
           MiddlewareIterator_spec)
        ''s'' [ev 1 ''Inc'' ''s''] world0)))
      = [PsAppendTo ''s'' [ev 1 ''Inc'' ''s''\<lparr>payload := ''12''\<rparr>]]"
proof -
  let ?handed = "[ev 1 ''Inc'' ''s''\<lparr>payload := ''12''\<rparr>]"
  have h1: "[ev 1 ''Inc'' ''s''] \<noteq> []" by simp
  have h2: "list_all2 (\<lambda>original handed.
        left_fold_spec PRE_APPEND (registered PRE_APPEND middleware0) original = Inr handed)
        [ev 1 ''Inc'' ''s''] ?handed"
    by code_simp
  have h3: "calls (ext (snd
      (case ps_appendTo (InMemoryPersistenceStrategy no_failure version_above) ''s''
              ?handed (ext world0) of
         (Inr u, x') \<Rightarrow>
           (Inr (), world0\<lparr>ext := x', floating := floating world0 @
              map (\<lambda>event. Chain APPENDED event
                     (left_fold_spec APPENDED (registered APPENDED middleware0) event))
                  ?handed\<rparr>)
       | (Inl e, x') \<Rightarrow>
           (Inl e, world0\<lparr>ext := x', floating := floating world0 @
              map (\<lambda>event. Chain APPEND_ERRORED event
                     (left_fold_spec APPEND_ERRORED (registered APPEND_ERRORED middleware0) event))
                  ?handed\<rparr>))))
      = [PsAppendTo ''s'' ?handed]"
    by code_simp
  show ?thesis
    using h1 h2 h3
    by (simp only: appendTo_hands_over_pre_append_fold [OF h1 h2] simp_thms)
qed

text \<open>When a PRE_APPEND handler throws, nothing is handed to the back-end.\<close>

lemma appendTo_aborts_when_pre_append_throws:
  assumes "events \<noteq> []"
    and "Promise_all (map (\<lambda>event. reduce_chain PRE_APPEND (middleware es PRE_APPEND) (Inr event)) events)
           = Inl e"
  shows "appendTo es sn events w = (Inl e, w)"
  using assms by (simp add: appendTo_def)

section \<open>C8: one from per projector\<close>

text \<open>
  C8 says that after any call of \<open>fromAll\<close>, \<open>fromStream\<close> or \<open>fromStreams\<close> every later
  one fails. \<open>fromStreams()\<close> without a stream returns normally on a new projector and
  leaves the query as it was, so the \<open>fromAll()\<close> after it returns normally too.
\<close>

theorem empty_fromStreams_leaves_from_open:
  "(case fromStreams [] new_projector of
      (r1, p1) \<Rightarrow> r1 = Inr () \<and>
        (case fromAll p1 of (r2, p2) \<Rightarrow> r2 = Inr () \<and> query_all p2))"
  by code_simp

text \<open>
  C8 as amended: after a call of \<open>fromAll()\<close>, of \<open>fromStream(s)\<close>, or of \<open>fromStreams\<close>
  with at least one stream has returned normally, every call of any of the three, in
  any number and order, fails with \<open>FromAlreadyCalled\<close> and leaves the projector, its query
  and matchers with it, as it was.
\<close>

theorem from_is_called_once:
  assumes "call_from c p = (Inr (), p')" and "c \<noteq> FromStreams []"
  shows "from_calls cs p' = (replicate (length cs) (Inl FromAlreadyCalled), p')"
  using from_calls_guard [OF call_from_sets_guard [OF assms]] .

theorem from_is_called_once_witness:
  "fst (call_from (FromStreams [\<lparr>streamName = ''s'', matcher = None\<rparr>]) new_projector) = Inr ()
   \<and> FromStreams [\<lparr>streamName = ''s'', matcher = None\<rparr>] \<noteq> FromStreams []
   \<and> from_calls [FromAll, FromStream \<lparr>streamName = ''t'', matcher = None\<rparr>, FromStreams []]
        (snd (call_from (FromStreams [\<lparr>streamName = ''s'', matcher = None\<rparr>]) new_projector))
      = ([Inl FromAlreadyCalled, Inl FromAlreadyCalled, Inl FromAlreadyCalled],
         snd (call_from (FromStreams [\<lparr>streamName = ''s'', matcher = None\<rparr>]) new_projector))"
proof -
  let ?c = "FromStreams [\<lparr>streamName = ''s'', matcher = None\<rparr>]"
  have h1: "fst (call_from ?c new_projector) = Inr ()" by code_simp
  have h2: "?c \<noteq> FromStreams []" by simp
  show ?thesis
    using h1 h2 from_is_called_once [OF pair_of_fst [OF h1] h2,
      of "[FromAll, FromStream \<lparr>streamName = ''t'', matcher = None\<rparr>, FromStreams []]"]
    by (simp add: numeral_3_eq_3)
qed

section \<open>C9: emit and linkTo\<close>

text \<open>
  C9 says that \<open>emit\<close> and \<open>linkTo\<close> create the stream when it is missing and return
  after the append has completed. \<open>linkTo\<close> does; \<open>emit\<close> returns with the append still
  floating. On a store without the stream \<open>proj\<close>, \<open>emit\<close> checks for the stream and
  creates it, and when it returns the stream is empty, the back-end's \<open>appendTo\<close> has not
  been called, and the call of \<open>EventStore.appendTo\<close> is a floating promise; \<open>linkTo\<close>
  on the same input returns with the event in the stream.
\<close>

theorem emit_returns_with_append_floating:
  "(case emit setup0 (ev 0 ''Out'' '''') (projector0, world0) of
      (Inr u, (p, w)) \<Rightarrow>
        map_of (storage (ext w)) ''proj'' = Some [] \<and>
        floating w = [AppendTo ''proj'' [ev 0 ''Out'' '''']] \<and>
        calls (ext w) =
          [PsHasStream ''proj'', AddStreamToStreamsTable ''proj'', CreateSchema ''proj'']
    | _ \<Rightarrow> False)
   \<and> (case linkTo setup0 ''proj'' (ev 0 ''Out'' '''') (projector0, world0) of
      (Inr u, (p, w)) \<Rightarrow>
        map_of (storage (ext w)) ''proj'' = Some [ev 0 ''Out'' ''''\<lparr>no := 1\<rparr>] \<and>
        calls (ext w) =
          [PsHasStream ''proj'', AddStreamToStreamsTable ''proj'', CreateSchema ''proj'',
           PsAppendTo ''proj'' [ev 0 ''Out'' '''']]
    | _ \<Rightarrow> False)"
  by code_simp

section \<open>C10: emit after reset\<close>

text \<open>
  C10: once \<open>streamCreated\<close> is true, \<open>emit\<close> neither asks the store whether the stream
  exists nor creates it: it leaves the back-end as it is and starts the append to the
  stream named after the projection. \<open>reset\<close> keeps \<open>streamCreated\<close> as it was, and when
  it returns normally it has reset the read model and deleted that stream; the
  \<open>emit\<close> after it starts an append to the deleted stream without creating it again.
\<close>

theorem emit_trusts_streamCreated:
  assumes "streamCreated p"
  shows "emit S event (p, w) =
           (Inr (), (p, w\<lparr>floating := floating w @ [AppendTo (this_name S) [event]]\<rparr>))
    \<and> (\<forall>r p' w'. reset S (p, w) = (r, (p', w')) \<longrightarrow>
         streamCreated p' \<and>
         (r = Inr () \<longrightarrow>
            (\<exists>x1. rm_reset (readModel S) (ext w) = (Inr (), x1) \<and>
                  ps_deleteStream (persistenceStrategy (eventStore S)) (this_name S) x1 = (Inr (), ext w')) \<and>
            emit S event (p', w') =
              (Inr (), (p', w'\<lparr>floating := floating w' @ [AppendTo (this_name S) [event]]\<rparr>))))"
proof (intro conjI allI impI)
  show "emit S event (p, w) =
           (Inr (), (p, w\<lparr>floating := floating w @ [AppendTo (this_name S) [event]]\<rparr>))"
    using assms by (rule emit_cached)
next
  fix r p' w' assume "reset S (p, w) = (r, (p', w'))"
  then show "streamCreated p'" using assms reset_keeps_streamCreated by blast
next
  fix r p' w' assume "reset S (p, w) = (r, (p', w'))" and "r = Inr ()"
  then show "\<exists>x1. rm_reset (readModel S) (ext w) = (Inr (), x1) \<and>
                  ps_deleteStream (persistenceStrategy (eventStore S)) (this_name S) x1 = (Inr (), ext w')"
    using reset_deletes_stream by blast
next
  fix r p' w' assume "reset S (p, w) = (r, (p', w'))"
  then have "streamCreated p'" using assms reset_keeps_streamCreated by blast
  then show "emit S event (p', w') =
              (Inr (), (p', w'\<lparr>floating := floating w' @ [AppendTo (this_name S) [event]]\<rparr>))"
    by (rule emit_cached)
qed

text \<open>
  On the in-memory back-end: a first \<open>emit\<close> creates the stream \<open>proj\<close> and sets
  \<open>streamCreated\<close>; \<open>reset\<close> deletes the stream; the next \<open>emit\<close> leaves the back-end
  untouched, the stream still missing, and an append to \<open>proj\<close> floating.
\<close>

theorem emit_trusts_streamCreated_witness:
  "(case emit setup0 (ev 0 ''Out'' '''') (projector0, world_running) of
      (r1, (p1, w1)) \<Rightarrow>
        r1 = Inr () \<and> streamCreated p1 \<and> ''proj'' \<in> set (streams_table (ext w1)) \<and>
        (case reset setup0 (p1, w1) of
           (r2, (p2, w2)) \<Rightarrow>
             r2 = Inr () \<and> streamCreated p2 \<and>
             ''proj'' \<notin> set (streams_table (ext w2)) \<and>
             map_of (storage (ext w2)) ''proj'' = None \<and>
             (case emit setup0 (ev 0 ''Out'' '''') (p2, w2) of
                (r3, (p3, w3)) \<Rightarrow>
                  r3 = Inr () \<and> ext w3 = ext w2 \<and>
                  floating w3 = floating w2 @ [AppendTo ''proj'' [ev 0 ''Out'' '''']])))"
proof -
  let ?E = "emit setup0 (ev 0 ''Out'' '''') (projector0, world_running)"
  let ?X = "reset setup0 (fst (snd ?E), snd (snd ?E))"
  have h: "streamCreated (fst (snd ?E))" by code_simp
  have e: "fst ?E = Inr () \<and> ''proj'' \<in> set (streams_table (ext (snd (snd ?E))))"
    by code_simp
  have f: "fst ?X = Inr () \<and> ''proj'' \<notin> set (streams_table (ext (snd (snd ?X)))) \<and>
           map_of (storage (ext (snd (snd ?X)))) ''proj'' = None"
    by code_simp
  have n: "this_name setup0 = ''proj''"
    by (simp add: setup0_def setup_with_def)
  have X: "?X = (fst ?X, (fst (snd ?X), snd (snd ?X)))" by simp
  from emit_trusts_streamCreated [OF h, of setup0 "ev 0 ''Out'' ''''" "snd (snd ?E)",
        THEN conjunct2, rule_format, OF X]
  have "streamCreated (fst (snd ?X))"
    and "emit setup0 (ev 0 ''Out'' '''') (fst (snd ?X), snd (snd ?X)) =
           (Inr (), (fst (snd ?X),
             (snd (snd ?X))\<lparr>floating := floating (snd (snd ?X)) @ [AppendTo ''proj'' [ev 0 ''Out'' '''']]\<rparr>))"
    using f n by simp_all
  then show ?thesis using h e f by (simp add: case_prod_beta)
qed

end
